theory Spec2Isabelle
  imports Main
begin

section \<open>Python values, exceptions and the process state\<close>

text \<open>
  The script \<^verbatim>\<open>manipulate_pdf.py\<close> works on Python values that come back from a JSON
  reply, so they are modelled by the JSON-shaped part of Python's value space. A
  dictionary is an association list read with \<open>map_of\<close>. Numbers are never inspected by
  the script; \<open>PyNum\<close> stands for all of them.
\<close>

datatype pyval =
    PyNone
  | PyBool bool
  | PyNum int
  | PyStr string
  | PyList "pyval list"
  | PyDict "(string \<times> pyval) list"

text \<open>
  The exceptions the script can meet. The four Python classes are raised by the
  language itself (subscripting, attribute lookup); \<open>LibError\<close> is any exception raised
  inside one of the libraries (PIL, fitz, requests, the file system), with its message.
\<close>

datatype exn = KeyError | IndexError | TypeError | AttributeError | LibError string

text \<open>One constructor for each \<^verbatim>\<open>print\<close> statement of the script, holding the values
  that the statement interpolates (the representation of a font object is left out).\<close>

datatype message =
    MsgPathNotExist string
  | MsgResponse pyval
  | MsgDescriptionError exn
  | MsgTextWrapNone pyval "int option"
  | MsgProvideKey
  | MsgProcessingPage nat
  | MsgDescribing nat nat
  | MsgErrorSaving string exn
  | MsgBlurring nat nat
  | MsgEmbossing nat nat
  | MsgGrayScaling nat nat
  | MsgBlackening nat nat
  | MsgException exn

text \<open>The request handed to \<^verbatim>\<open>requests.post\<close> and what comes back. \<open>json_result\<close> is the
  outcome of calling \<^verbatim>\<open>response.json()\<close>: \<open>None\<close> when the body is not JSON and the call
  raises.\<close>

record http_request =
  url :: string
  headers :: "(string \<times> string) list"
  json_payload :: pyval

record http_response =
  status_code :: nat
  json_result :: "pyval option"

text \<open>The state outside the interpreter: the files (path to contents), what has been
  printed, the requests that have gone out, and the paths of the documents that have
  been opened.\<close>

record world =
  fs :: "string \<rightharpoonup> string"
  stdout :: "message list"
  sent :: "http_request list"
  opened :: "string list"

type_synonym 'a prog = "world \<Rightarrow> (exn + 'a) \<times> world"

definition done_with :: "'a \<Rightarrow> 'a prog" where
  "done_with x = (\<lambda>w. (Inr x, w))"

definition throw :: "exn \<Rightarrow> 'a prog" where
  "throw e = (\<lambda>w. (Inl e, w))"

definition and_then :: "'a prog \<Rightarrow> ('a \<Rightarrow> 'b prog) \<Rightarrow> 'b prog" where
  "and_then m f = (\<lambda>w. case m w of (Inl e, w') \<Rightarrow> (Inl e, w') | (Inr x, w') \<Rightarrow> f x w')"

definition attempt :: "'a prog \<Rightarrow> (exn \<Rightarrow> 'a prog) \<Rightarrow> 'a prog" where
  "attempt m h = (\<lambda>w. case m w of (Inl e, w') \<Rightarrow> h e w' | (Inr x, w') \<Rightarrow> (Inr x, w'))"

definition lift_result :: "exn + 'a \<Rightarrow> 'a prog" where
  "lift_result r = (\<lambda>w. (r, w))"

definition print :: "message \<Rightarrow> unit prog" where
  "print m = (\<lambda>w. (Inr (), w\<lparr>stdout := stdout w @ [m]\<rparr>))"

definition when_do :: "bool \<Rightarrow> unit prog \<Rightarrow> unit prog" where
  "when_do b m = (if b then m else done_with ())"

section \<open>Strings\<close>

text \<open>
  \<^verbatim>\<open>str.split(' ')\<close> cuts at every single space and keeps empty pieces, so it always
  returns at least one piece. \<^verbatim>\<open>str.strip()\<close> removes the whitespace at both ends, where
  whitespace is what \<^verbatim>\<open>str.isspace\<close> accepts; \<open>char\<close> has 256 values, so the model
  covers the code points below 256.
\<close>

definition is_space :: "char \<Rightarrow> bool" where
  "is_space c = (of_char c \<in> {9, 10, 11, 12, 13, 28, 29, 30, 31, 32, 133, 160 :: nat})"

fun split_on :: "(char \<Rightarrow> bool) \<Rightarrow> string \<Rightarrow> string list" where
  "split_on P [] = [[]]"
| "split_on P (c # cs) =
     (if P c then [] # split_on P cs
      else (case split_on P cs of [] \<Rightarrow> [[c]] | w # ws \<Rightarrow> (c # w) # ws))"

definition split_space :: "string \<Rightarrow> string list" where
  "split_space s = split_on (\<lambda>c. c = CHR '' '') s"

definition strip :: "string \<Rightarrow> string" where
  "strip s = dropWhile is_space (rev (dropWhile is_space (rev s)))"

section \<open>text_wrap\<close>

text \<open>A font is used through \<^verbatim>\<open>getbbox\<close> only: the box (left, top, right, bottom) of a
  string.\<close>

type_synonym font = "string \<Rightarrow> int \<times> int \<times> int \<times> int"

definition bbox_width :: "int \<times> int \<times> int \<times> int \<Rightarrow> int" where
  "bbox_width b = (case b of (x0, y0, x1, y1) \<Rightarrow> x1 - x0)"

definition bbox_height :: "int \<times> int \<times> int \<times> int \<Rightarrow> int" where
  "bbox_height b = (case b of (x0, y0, x1, y1) \<Rightarrow> y1 - y0)"

text \<open>The \<^verbatim>\<open>while i < len(words)\<close> loop of \<^verbatim>\<open>text_wrap\<close>, with its variables \<open>i\<close>, \<open>lines\<close>
  and \<open>line\<close>. Note that the box is taken of \<open>text\<close>, as in the source, and that
  \<open>test_line\<close> is used only in the else branch.\<close>

function text_wrap_loop ::
  "font \<Rightarrow> string \<Rightarrow> int \<Rightarrow> string list \<Rightarrow> nat \<Rightarrow> string list \<Rightarrow> string \<Rightarrow> string list" where
  "text_wrap_loop fnt text max_width words i lines line =
     (if i < length words then
        (let test_line = line @ words ! i @ '' '';
             bbox = fnt text;
             text_width = bbox_width bbox
         in if text_width > max_width
            then text_wrap_loop fnt text max_width words (i + 1)
                   (lines @ [strip line]) (words ! i @ '' '')
            else text_wrap_loop fnt text max_width words (i + 1) lines test_line)
      else lines @ [strip line])"
  by pat_completeness auto
termination
  by (relation "measure (\<lambda>(fnt, text, max_width, words, i, lines, line). length words - i)") auto

declare text_wrap_loop.simps [simp del]

text \<open>\<^verbatim>\<open>text_wrap(text, font, max_width)\<close>. A \<open>text\<close> that is neither \<open>None\<close> nor a string
  has no \<^verbatim>\<open>split\<close> attribute.\<close>

definition text_wrap :: "pyval \<Rightarrow> font option \<Rightarrow> int option \<Rightarrow> string list prog" where
  "text_wrap text fnt max_width =
     (if text = PyNone \<or> fnt = None \<or> max_width = None then
        and_then (print (MsgTextWrapNone text max_width)) (\<lambda>_. done_with [])
      else
        (case (text, fnt, max_width) of
           (PyStr s, Some f, Some mw) \<Rightarrow>
             done_with (text_wrap_loop f s mw (split_space s) 0 [] [])
         | _ \<Rightarrow> throw AttributeError))"

section \<open>get_image_description\<close>

text \<open>The two collaborators of the captioner: \<^verbatim>\<open>requests.post\<close>, which either raises or
  returns a response, and \<^verbatim>\<open>base64.b64encode\<close>.\<close>

record net =
  http_post :: "http_request \<Rightarrow> exn + http_response"
  b64encode :: "string \<Rightarrow> string"

text \<open>Subscripting, \<^verbatim>\<open>v[key]\<close> with a string key and \<^verbatim>\<open>v[i]\<close> with a non-negative integer.
  A dictionary that came from JSON has string keys only, so an integer key is missing.\<close>

fun getitem_key :: "pyval \<Rightarrow> string \<Rightarrow> exn + pyval" where
  "getitem_key (PyDict kvs) k = (case map_of kvs k of None \<Rightarrow> Inl KeyError | Some v \<Rightarrow> Inr v)"
| "getitem_key _ k = Inl TypeError"

fun getitem_index :: "pyval \<Rightarrow> nat \<Rightarrow> exn + pyval" where
  "getitem_index (PyList xs) i = (if i < length xs then Inr (xs ! i) else Inl IndexError)"
| "getitem_index (PyStr s) i = (if i < length s then Inr (PyStr [s ! i]) else Inl IndexError)"
| "getitem_index (PyDict kvs) i = Inl KeyError"
| "getitem_index _ i = Inl TypeError"

definition bind_result :: "exn + 'a \<Rightarrow> ('a \<Rightarrow> exn + 'b) \<Rightarrow> exn + 'b" where
  "bind_result r f = (case r of Inl e \<Rightarrow> Inl e | Inr x \<Rightarrow> f x)"

text \<open>\<^verbatim>\<open>response['choices'][0]['message']['content']\<close>\<close>

definition response_content :: "pyval \<Rightarrow> exn + pyval" where
  "response_content response =
     bind_result (getitem_key response ''choices'') (\<lambda>choices.
     bind_result (getitem_index choices 0) (\<lambda>choice.
     bind_result (getitem_key choice ''message'') (\<lambda>msg.
     getitem_key msg ''content'')))"

definition request_headers :: "string \<Rightarrow> (string \<times> string) list" where
  "request_headers openai_key =
     [(''Content-Type'', ''application/json''),
      (''Authorization'', ''Bearer '' @ openai_key)]"

definition request_payload :: "string \<Rightarrow> string \<Rightarrow> string \<Rightarrow> int \<Rightarrow> pyval" where
  "request_payload model prompt base64_image max_tokens =
     PyDict
       [(''model'', PyStr model),
        (''messages'',
           PyList [PyDict
             [(''role'', PyStr ''user''),
              (''content'',
                 PyList
                   [PyDict [(''type'', PyStr ''text''), (''text'', PyStr prompt)],
                    PyDict [(''type'', PyStr ''image_url''),
                            (''image_url'',
                               PyDict [(''url'',
                                  PyStr (''data:image/jpeg;base64,'' @ base64_image))])]])]]),
        (''max_tokens'', PyNum max_tokens)]"

definition description_request ::
  "net \<Rightarrow> string \<Rightarrow> string \<Rightarrow> string \<Rightarrow> int \<Rightarrow> string \<Rightarrow> http_request" where
  "description_request nt prompt model openai_key max_tokens image_bytes =
     \<lparr>url = ''https://api.openai.com/v1/chat/completions'',
      headers = request_headers openai_key,
      json_payload = request_payload model prompt (b64encode nt image_bytes) max_tokens\<rparr>"

definition path_exists :: "string \<Rightarrow> world \<Rightarrow> bool" where
  "path_exists p w = (fs w p \<noteq> None)"

definition read_file :: "string \<Rightarrow> string prog" where
  "read_file p = (\<lambda>w. case fs w p of
                        None \<Rightarrow> (Inl (LibError ''FileNotFoundError''), w)
                      | Some bytes \<Rightarrow> (Inr bytes, w))"

definition post :: "net \<Rightarrow> http_request \<Rightarrow> http_response prog" where
  "post nt req = (\<lambda>w. (http_post nt req, w\<lparr>sent := sent w @ [req]\<rparr>))"

definition response_json :: "http_response \<Rightarrow> exn + pyval" where
  "response_json r = (case json_result r of
                        None \<Rightarrow> Inl (LibError ''JSONDecodeError'')
                      | Some v \<Rightarrow> Inr v)"

text \<open>The body of the \<^verbatim>\<open>try\<close> block.\<close>

definition request_description ::
  "net \<Rightarrow> string \<Rightarrow> string \<Rightarrow> string \<Rightarrow> string \<Rightarrow> int \<Rightarrow> bool \<Rightarrow> pyval prog" where
  "request_description nt image_path prompt model openai_key max_tokens is_verbose =
     and_then (read_file image_path) (\<lambda>image_bytes.
     and_then (post nt (description_request nt prompt model openai_key max_tokens image_bytes))
       (\<lambda>response.
     and_then (lift_result (response_json response)) (\<lambda>response.
     and_then (when_do is_verbose (print (MsgResponse response))) (\<lambda>_.
     and_then (lift_result (response_content response)) (\<lambda>description.
     done_with description)))))"

text \<open>\<^verbatim>\<open>get_image_description\<close>: the bare \<^verbatim>\<open>return\<close> of the path check gives \<open>None\<close>. The
  first handler, \<^verbatim>\<open>except Exception\<close>, takes every exception, so the \<^verbatim>\<open>except KeyError\<close>
  after it is never reached.\<close>

definition get_image_description ::
  "net \<Rightarrow> string \<Rightarrow> string \<Rightarrow> string \<Rightarrow> string \<Rightarrow> int \<Rightarrow> bool \<Rightarrow> pyval prog" where
  "get_image_description nt image_path prompt model openai_key max_tokens is_verbose =
     (\<lambda>w. if \<not> path_exists image_path w then
            and_then (print (MsgPathNotExist image_path)) (\<lambda>_. done_with PyNone) w
          else
            attempt
              (request_description nt image_path prompt model openai_key max_tokens is_verbose)
              (\<lambda>e. and_then (print (MsgDescriptionError e)) (\<lambda>_. done_with (PyStr '''')))
              w)"

section \<open>extract_pdf\<close>

text \<open>The command line as \<^verbatim>\<open>argparse\<close> delivers it, one field for each argument of \<^verbatim>\<open>main\<close>.\<close>

record args =
  pdf_file :: string
  verbose :: bool
  output_file :: string
  blur :: int
  gray :: bool
  black :: bool
  emboss :: bool
  describe :: bool
  openai_key :: string
  description_prompt :: string
  max_openai_tokens :: int
  font_size :: int

text \<open>
  The image library, for an image type \<open>'img\<close> that the script never looks into.
  Decoding, encoding to JPEG and loading a font can raise. \<open>save_leftover\<close> says what a
  \<^verbatim>\<open>save\<close> that raised leaves at its path, given what was there before. The four filters
  and the text drawing are functions from image to image.
\<close>

record 'img pil =
  image_open :: "string \<Rightarrow> exn + 'img"
  save_jpeg :: "'img \<Rightarrow> exn + string"
  save_leftover :: "string option \<Rightarrow> string option"
  gaussian_blur :: "int \<Rightarrow> 'img \<Rightarrow> 'img"
  emboss_filter :: "'img \<Rightarrow> 'img"
  convert_L :: "'img \<Rightarrow> 'img"
  convert_1 :: "'img \<Rightarrow> 'img"
  width :: "'img \<Rightarrow> int"
  truetype :: "string \<Rightarrow> int \<Rightarrow> exn + font"
  draw_text :: "int \<times> int \<Rightarrow> string \<Rightarrow> font \<Rightarrow> string \<Rightarrow> 'img \<Rightarrow> 'img"

text \<open>
  The document library. A page has its number, the cross references of its images
  (\<^verbatim>\<open>img[0]\<close> of each entry of \<^verbatim>\<open>page.get_images(full=True)\<close>), the boxes of the images it
  shows, and the images put on it so far by \<^verbatim>\<open>insert_image\<close>, each with its box and file
  contents. Coordinates are only copied, so their type does not matter. A document has
  its pages and the stored bytes of each image.
\<close>

type_synonym rect = "int \<times> int \<times> int \<times> int"

record page =
  number :: nat
  image_list :: "nat list"
  image_info :: "rect list"
  inserted :: "(rect \<times> string) list"

record document =
  pages :: "page list"
  images :: "(nat \<times> string) list"

record fitz =
  parse_pdf :: "string \<Rightarrow> exn + document"
  write_pdf :: "document \<Rightarrow> exn + string"

definition orig_tmp_path :: string where
  "orig_tmp_path = ''o_tmp.jpg''"

definition tmp_image_path :: string where
  "tmp_image_path = ''tmp.jpg''"

definition fitz_open :: "fitz \<Rightarrow> string \<Rightarrow> document prog" where
  "fitz_open fz p =
     and_then (\<lambda>w. (Inr (), w\<lparr>opened := opened w @ [p]\<rparr>)) (\<lambda>_.
     and_then (read_file p) (\<lambda>bytes.
     lift_result (parse_pdf fz bytes)))"

definition extract_image :: "document \<Rightarrow> nat \<Rightarrow> exn + string" where
  "extract_image doc xref = (case map_of (images doc) xref of
                               None \<Rightarrow> Inl KeyError
                             | Some bytes \<Rightarrow> Inr bytes)"

text \<open>\<^verbatim>\<open>pil_img.save(path, format='JPEG')\<close>\<close>

definition save_image :: "'img pil \<Rightarrow> 'img \<Rightarrow> string \<Rightarrow> unit prog" where
  "save_image pl pil_img p =
     (\<lambda>w. case save_jpeg pl pil_img of
             Inl e \<Rightarrow> (Inl e, w\<lparr>fs := (fs w)(p := save_leftover pl (fs w p))\<rparr>)
           | Inr bytes \<Rightarrow> (Inr (), w\<lparr>fs := (fs w)(p \<mapsto> bytes)\<rparr>))"

text \<open>\<^verbatim>\<open>if os.path.exists(path): os.remove(path)\<close>\<close>

definition remove_if_exists :: "string \<Rightarrow> unit prog" where
  "remove_if_exists p =
     (\<lambda>w. if path_exists p w then (Inr (), w\<lparr>fs := (fs w)(p := None)\<rparr>) else (Inr (), w))"

text \<open>Lines 134 to 153: the description of the image, \<open>None\<close> unless \<^verbatim>\<open>--describe\<close> is set.\<close>

definition describe_stage ::
  "'img pil \<Rightarrow> net \<Rightarrow> args \<Rightarrow> nat \<Rightarrow> nat \<Rightarrow> 'img \<Rightarrow> pyval prog" where
  "describe_stage pl nt a page_number img_index pil_img =
     (if describe a then
        and_then (when_do (verbose a) (print (MsgDescribing img_index page_number))) (\<lambda>_.
        and_then (attempt (save_image pl pil_img orig_tmp_path)
                    (\<lambda>e. print (MsgErrorSaving orig_tmp_path e))) (\<lambda>_.
        and_then (get_image_description nt orig_tmp_path (description_prompt a)
                    ''gpt-4-vision-preview'' (openai_key a) (max_openai_tokens a) (verbose a))
          (\<lambda>description.
        and_then (remove_if_exists orig_tmp_path) (\<lambda>_.
        done_with description))))
      else done_with PyNone)"

text \<open>Lines 155 to 170, one definition for each \<^verbatim>\<open>if\<close>.\<close>

definition blur_stage :: "'img pil \<Rightarrow> args \<Rightarrow> nat \<Rightarrow> nat \<Rightarrow> 'img \<Rightarrow> 'img prog" where
  "blur_stage pl a page_number img_index pil_img =
     (if blur a > 0 then
        (let pil_img = gaussian_blur pl (blur a) pil_img in
         and_then (when_do (verbose a) (print (MsgBlurring img_index page_number)))
           (\<lambda>_. done_with pil_img))
      else done_with pil_img)"

definition emboss_stage :: "'img pil \<Rightarrow> args \<Rightarrow> nat \<Rightarrow> nat \<Rightarrow> 'img \<Rightarrow> 'img prog" where
  "emboss_stage pl a page_number img_index pil_img =
     (if emboss a then
        (let pil_img = emboss_filter pl pil_img in
         and_then (when_do (verbose a) (print (MsgEmbossing img_index page_number)))
           (\<lambda>_. done_with pil_img))
      else done_with pil_img)"

definition gray_stage :: "'img pil \<Rightarrow> args \<Rightarrow> nat \<Rightarrow> nat \<Rightarrow> 'img \<Rightarrow> 'img prog" where
  "gray_stage pl a page_number img_index pil_img =
     (if gray a then
        (let pil_img = convert_L pl pil_img in
         and_then (when_do (verbose a) (print (MsgGrayScaling img_index page_number)))
           (\<lambda>_. done_with pil_img))
      else done_with pil_img)"

definition black_stage :: "'img pil \<Rightarrow> args \<Rightarrow> nat \<Rightarrow> nat \<Rightarrow> 'img \<Rightarrow> 'img prog" where
  "black_stage pl a page_number img_index pil_img =
     (if black a then
        (let pil_img = convert_1 pl pil_img in
         and_then (when_do (verbose a) (print (MsgBlackening img_index page_number)))
           (\<lambda>_. done_with pil_img))
      else done_with pil_img)"

definition transform_chain :: "'img pil \<Rightarrow> args \<Rightarrow> nat \<Rightarrow> nat \<Rightarrow> 'img \<Rightarrow> 'img prog" where
  "transform_chain pl a page_number img_index pil_img =
     and_then (blur_stage pl a page_number img_index pil_img) (\<lambda>pil_img.
     and_then (emboss_stage pl a page_number img_index pil_img) (\<lambda>pil_img.
     and_then (gray_stage pl a page_number img_index pil_img) (\<lambda>pil_img.
     black_stage pl a page_number img_index pil_img)))"

text \<open>Lines 177 to 185: each line is drawn in white and again, one pixel off, in black;
  \<open>y_text\<close> advances by the height of the line's box.\<close>

fun draw_lines :: "'img pil \<Rightarrow> font \<Rightarrow> string list \<Rightarrow> int \<Rightarrow> 'img \<Rightarrow> 'img" where
  "draw_lines pl fnt [] y_text pil_img = pil_img"
| "draw_lines pl fnt (line # lines) y_text pil_img =
     (let bbox = fnt line;
          text_height = bbox_height bbox;
          pil_img = draw_text pl (10, y_text) line fnt ''white'' pil_img;
          pil_img = draw_text pl (10 + 1, y_text + 1) line fnt ''black'' pil_img
      in draw_lines pl fnt lines (y_text + text_height) pil_img)"

text \<open>Lines 172 to 185.\<close>

definition overlay_stage :: "'img pil \<Rightarrow> args \<Rightarrow> pyval \<Rightarrow> 'img \<Rightarrow> 'img prog" where
  "overlay_stage pl a description pil_img =
     (if describe a then
        (let max_width = width pl pil_img in
         and_then (lift_result (truetype pl ''arial.ttf'' (font_size a))) (\<lambda>fnt.
         and_then (text_wrap description (Some fnt) (Some max_width)) (\<lambda>lines.
         done_with (draw_lines pl fnt lines 10 pil_img))))
      else done_with pil_img)"

text \<open>\<^verbatim>\<open>page.get_image_info()\<close> lists the images the page shows now: those it had and, after
  them, those inserted since.\<close>

definition get_image_info :: "page \<Rightarrow> rect list" where
  "get_image_info pg = image_info pg @ map fst (inserted pg)"

text \<open>\<^verbatim>\<open>page.insert_image(bbox, filename=..., keep_proportion=True)\<close> reads the file.\<close>

definition insert_image :: "page \<Rightarrow> rect \<Rightarrow> string \<Rightarrow> page prog" where
  "insert_image pg bbox filename =
     and_then (read_file filename)
       (\<lambda>bytes. done_with (pg\<lparr>inserted := inserted pg @ [(bbox, bytes)]\<rparr>))"

text \<open>Lines 187 to 194.\<close>

definition reinsert :: "'img pil \<Rightarrow> page \<Rightarrow> nat \<Rightarrow> 'img \<Rightarrow> page prog" where
  "reinsert pl pg img_index pil_img =
     and_then (attempt (save_image pl pil_img tmp_image_path) (\<lambda>e. print (MsgException e)))
       (\<lambda>_.
     (if img_index < length (get_image_info pg) then
        (let bbox = get_image_info pg ! img_index
         in insert_image pg bbox tmp_image_path)
      else throw IndexError))"

text \<open>The body of the loop over the images of a page.\<close>

definition process_image ::
  "'img pil \<Rightarrow> net \<Rightarrow> args \<Rightarrow> document \<Rightarrow> page \<Rightarrow> nat \<Rightarrow> nat \<Rightarrow> page prog" where
  "process_image pl nt a doc pg img_index xref =
     and_then (lift_result (extract_image doc xref)) (\<lambda>bytes.
     and_then (lift_result (image_open pl bytes)) (\<lambda>pil_img.
     and_then (describe_stage pl nt a (number pg) img_index pil_img) (\<lambda>description.
     and_then (transform_chain pl a (number pg) img_index pil_img) (\<lambda>pil_img.
     and_then (overlay_stage pl a description pil_img) (\<lambda>pil_img.
     reinsert pl pg img_index pil_img)))))"

fun process_images ::
  "'img pil \<Rightarrow> net \<Rightarrow> args \<Rightarrow> document \<Rightarrow> page \<Rightarrow> nat \<Rightarrow> nat list \<Rightarrow> page prog" where
  "process_images pl nt a doc pg img_index [] = done_with pg"
| "process_images pl nt a doc pg img_index (xref # rest) =
     and_then (process_image pl nt a doc pg img_index xref)
       (\<lambda>pg. process_images pl nt a doc pg (img_index + 1) rest)"

text \<open>The body of the loop over the pages.\<close>

definition process_page :: "'img pil \<Rightarrow> net \<Rightarrow> args \<Rightarrow> document \<Rightarrow> page \<Rightarrow> page prog" where
  "process_page pl nt a doc pg =
     and_then (when_do (verbose a) (print (MsgProcessingPage (number pg)))) (\<lambda>_.
     (let image_list = image_list pg in
      and_then (process_images pl nt a doc pg 0 image_list) (\<lambda>pg.
      and_then (remove_if_exists tmp_image_path) (\<lambda>_.
      done_with pg))))"

fun process_pages ::
  "'img pil \<Rightarrow> net \<Rightarrow> args \<Rightarrow> document \<Rightarrow> page list \<Rightarrow> page list prog" where
  "process_pages pl nt a doc [] = done_with []"
| "process_pages pl nt a doc (pg # rest) =
     and_then (process_page pl nt a doc pg) (\<lambda>pg.
     and_then (process_pages pl nt a doc rest) (\<lambda>rest.
     done_with (pg # rest)))"

text \<open>\<^verbatim>\<open>doc.save(args.output_file)\<close>\<close>

definition doc_save :: "fitz \<Rightarrow> document \<Rightarrow> string \<Rightarrow> unit prog" where
  "doc_save fz doc p =
     and_then (lift_result (write_pdf fz doc))
       (\<lambda>bytes w. (Inr (), w\<lparr>fs := (fs w)(p \<mapsto> bytes)\<rparr>))"

definition extract_pdf :: "'img pil \<Rightarrow> net \<Rightarrow> fitz \<Rightarrow> args \<Rightarrow> unit prog" where
  "extract_pdf pl nt fz a =
     (if describe a \<and> openai_key a = [] then
        print MsgProvideKey
      else
        (let pdf = pdf_file a in
         and_then (fitz_open fz pdf) (\<lambda>doc.
         and_then (process_pages pl nt a doc (pages doc)) (\<lambda>pgs.
         doc_save fz (doc\<lparr>pages := pgs\<rparr>) (output_file a)))))"

section \<open>Notions of the specification\<close>

text \<open>The words of a string in the sense of the specification: the maximal runs of
  characters that are not whitespace, which is what \<^verbatim>\<open>str.split()\<close> returns. This
  definition is not taken from the source; the source's own pieces are \<open>split_space\<close>.\<close>

definition py_words :: "string \<Rightarrow> string list" where
  "py_words s = filter (\<lambda>w. w \<noteq> []) (split_on is_space s)"

text \<open>The field \<open>choices[0].message.content\<close> of a JSON reply, read off the JSON
  structure: an object whose \<open>choices\<close> is a non-empty array, whose first element is an
  object whose \<open>message\<close> is an object with a \<open>content\<close>.\<close>

definition json_content :: "pyval \<Rightarrow> pyval option" where
  "json_content reply =
     (case reply of
        PyDict reply_fields \<Rightarrow>
          (case map_of reply_fields ''choices'' of
             Some (PyList (PyDict choice # _)) \<Rightarrow>
               (case map_of choice ''message'' of
                  Some (PyDict msg) \<Rightarrow> map_of msg ''content''
                | _ \<Rightarrow> None)
           | _ \<Rightarrow> None)
      | _ \<Rightarrow> None)"






text \<open>The request that describes the image whose encoded bytes are \<open>bytes\<close>, under the
  configuration \<open>a\<close>.\<close>

definition caption_request :: "net \<Rightarrow> args \<Rightarrow> string \<Rightarrow> http_request" where
  "caption_request nt a bytes =
     description_request nt (description_prompt a) ''gpt-4-vision-preview'' (openai_key a)
       (max_openai_tokens a) bytes"

text \<open>A failure of the request or of reading its reply: \<^verbatim>\<open>requests.post\<close> raises, or the
  body is not JSON, or the reply has no \<open>choices[0].message.content\<close>.\<close>

definition request_fails :: "net \<Rightarrow> http_request \<Rightarrow> bool" where
  "request_fails nt req =
     (case http_post nt req of
        Inl e \<Rightarrow> True
      | Inr r \<Rightarrow> (case json_result r of None \<Rightarrow> True | Some reply \<Rightarrow> json_content reply = None))"








text \<open>A computation that sends nothing.\<close>

definition keeps_sent :: "'a prog \<Rightarrow> bool" where
  "keeps_sent m = (\<forall>w. sent (snd (m w)) = sent w)"

section \<open>Concrete inputs\<close>

text \<open>A font whose box is one unit wide for each character, and a state with no files.\<close>

definition unit_font :: font where
  "unit_font s = (0, 0, int (length s), 1)"

definition world0 :: world where
  "world0 = \<lparr>fs = Map.empty, stdout = [], sent = [], opened = []\<rparr>"

text \<open>A state in which a file is at the snapshot path already, and one in which the
  snapshot of an image has just been written.\<close>

definition world_stale :: world where
  "world_stale = world0\<lparr>fs := [''o_tmp.jpg'' \<mapsto> ''stale'']\<rparr>"

definition world_snapshot :: world where
  "world_snapshot = world0\<lparr>fs := [''o_tmp.jpg'' \<mapsto> ''JPEG'']\<rparr>"

text \<open>Four services: one that answers every request with status 200 and a description,
  one that answers with status 500 and a body that has a description all the same, one
  that answers with status 401 and an error body, and one that cannot be reached.\<close>

definition reply_cat :: pyval where
  "reply_cat =
     PyDict [(''choices'',
        PyList [PyDict [(''message'', PyDict [(''content'', PyStr ''a cat'')])]])]"

definition reply_error :: pyval where
  "reply_error = PyDict [(''error'', PyDict [(''message'', PyStr ''Incorrect API key'')])]"

definition net_ok :: net where
  "net_ok =
     \<lparr>http_post = (\<lambda>req. Inr \<lparr>status_code = 200, json_result = Some reply_cat\<rparr>),
      b64encode = (\<lambda>bytes. bytes)\<rparr>"

definition net_500 :: net where
  "net_500 =
     \<lparr>http_post = (\<lambda>req. Inr \<lparr>status_code = 500, json_result = Some reply_cat\<rparr>),
      b64encode = (\<lambda>bytes. bytes)\<rparr>"

definition net_401 :: net where
  "net_401 =
     \<lparr>http_post = (\<lambda>req. Inr \<lparr>status_code = 401, json_result = Some reply_error\<rparr>),
      b64encode = (\<lambda>bytes. bytes)\<rparr>"

definition net_down :: net where
  "net_down =
     \<lparr>http_post = (\<lambda>req. Inl (LibError ''ConnectionError'')),
      b64encode = (\<lambda>bytes. bytes)\<rparr>"



text \<open>An image library over images that are strings: decoding keeps the bytes, each
  operation writes its name around or after the image, and the image \<open>palette\<close> cannot
  be saved as JPEG. A \<^verbatim>\<open>save\<close> that raises leaves the path as it was.\<close>

definition pil_test :: "string pil" where
  "pil_test =
     \<lparr>image_open = (\<lambda>bytes. Inr bytes),
      save_jpeg = (\<lambda>im. if im = ''palette'' then Inl (LibError ''OSError'')
                        else Inr (''jpeg:'' @ im)),
      save_leftover = (\<lambda>old. old),
      gaussian_blur = (\<lambda>radius im. ''blur('' @ im @ '')''),
      emboss_filter = (\<lambda>im. ''emboss('' @ im @ '')''),
      convert_L = (\<lambda>im. ''L('' @ im @ '')''),
      convert_1 = (\<lambda>im. ''1('' @ im @ '')''),
      width = (\<lambda>im. 100),
      truetype = (\<lambda>name size. Inr unit_font),
      draw_text = (\<lambda>xy line fnt fill im. im @ ''+'' @ fill @ '':'' @ line)\<rparr>"

definition args_test :: args where
  "args_test =
     \<lparr>pdf_file = ''in.pdf'', verbose = False, output_file = ''output.pdf'', blur = 0,
      gray = True, black = False, emboss = False, describe = True, openai_key = ''key'',
      description_prompt = ''Describe the image.'', max_openai_tokens = 300,
      font_size = 18\<rparr>"

definition args_no_key :: args where
  "args_no_key = args_test\<lparr>openai_key := ''''\<rparr>"


definition page_test :: page where
  "page_test =
     \<lparr>number = 0, image_list = [7], image_info = [(0, 0, 10, 10)], inserted = []\<rparr>"

definition doc_palette :: document where
  "doc_palette = \<lparr>pages = [page_test], images = [(7, ''palette'')]\<rparr>"

definition doc_photo :: document where
  "doc_photo = \<lparr>pages = [page_test], images = [(7, ''photo'')]\<rparr>"

definition fitz_test :: fitz where
  "fitz_test =
     \<lparr>parse_pdf = (\<lambda>bytes. if bytes = ''PDF'' then Inr doc_photo
                           else Inl (LibError ''FileDataError'')),
      write_pdf = (\<lambda>doc. Inr ''PDF'')\<rparr>"

section \<open>Properties of text_wrap\<close>

lemma is_space_blank [simp]: "is_space CHR '' ''"
  by (simp add: is_space_def)

lemma split_on_not_Nil [simp]: "split_on P s \<noteq> []"
  by (induction s) (auto split: list.splits)

lemma strip_Nil [simp]: "strip [] = []"
  by (simp add: strip_def)

lemma strip_snoc_blank [simp]: "strip (s @ '' '') = strip s"
  by (simp add: strip_def)

text \<open>The loop when the box of the whole text is wider than \<open>max_width\<close>: every pass
  flushes the current line, so each word ends up on a line of its own, after the empty
  first line.\<close>

lemma text_wrap_loop_wide:
  "bbox_width (fnt t) > mw \<Longrightarrow>
   text_wrap_loop fnt t mw words i lines line =
     lines @ strip line # map (\<lambda>w. strip (w @ '' '')) (drop i words)"
proof (induction fnt t mw words i lines line rule: text_wrap_loop.induct)
  case (1 fnt t mw words i lines line)
  show ?case
  proof (cases "i < length words")
    case True
    then have "drop i words = words ! i # drop (Suc i) words"
      by (simp add: Cons_nth_drop_Suc)
    with True 1 show ?thesis
      by (subst text_wrap_loop.simps) (simp add: Let_def)
  next
    case False
    then show ?thesis
      by (subst text_wrap_loop.simps) simp
  qed
qed

text \<open>The loop when the box of the whole text fits: no pass flushes, and all the words
  end up on one line.\<close>

lemma text_wrap_loop_narrow:
  "\<not> bbox_width (fnt t) > mw \<Longrightarrow>
   text_wrap_loop fnt t mw words i lines line =
     lines @ [strip (line @ concat (map (\<lambda>w. w @ '' '') (drop i words)))]"
proof (induction fnt t mw words i lines line rule: text_wrap_loop.induct)
  case (1 fnt t mw words i lines line)
  show ?case
  proof (cases "i < length words")
    case True
    then have "drop i words = words ! i # drop (Suc i) words"
      by (simp add: Cons_nth_drop_Suc)
    with True 1 show ?thesis
      by (subst text_wrap_loop.simps) (simp add: Let_def)
  next
    case False
    then show ?thesis
      by (subst text_wrap_loop.simps) simp
  qed
qed

lemma concat_split_on: "concat (map (\<lambda>w. w @ [d]) (split_on (\<lambda>c. c = d) s)) = s @ [d]"
  by (induction s) (auto split: list.splits)

lemma text_wrap_str:
  "text_wrap (PyStr s) (Some f) (Some mw) w =
     (Inr (if bbox_width (f s) > mw then [] # map strip (split_space s) else [strip s]), w)"
proof (cases "bbox_width (f s) > mw")
  case True
  then show ?thesis
    by (simp add: text_wrap_def done_with_def text_wrap_loop_wide comp_def)
next
  case False
  have "concat (map (\<lambda>w. w @ '' '') (split_space s)) = s @ '' ''"
    unfolding split_space_def by (rule concat_split_on)
  with False show ?thesis
    by (simp add: text_wrap_def done_with_def text_wrap_loop_narrow)
qed

text \<open>
  C7. When \<open>text\<close>, \<open>font\<close> or \<open>max_width\<close> is \<open>None\<close>, \<open>text_wrap\<close> returns the empty list
  and raises nothing; it only prints its diagnostic.
\<close>

theorem text_wrap_none_returns_empty:
  assumes "text = PyNone \<or> fnt = None \<or> max_width = None"
  shows "text_wrap text fnt max_width w =
           (Inr [], w\<lparr>stdout := stdout w @ [MsgTextWrapNone text max_width]\<rparr>)"
  using assms by (simp add: text_wrap_def and_then_def print_def done_with_def)

theorem text_wrap_none_returns_empty_witness:
  "(PyStr ''a b'' = PyNone \<or> (None :: font option) = None \<or> Some (5::int) = None) \<and>
   text_wrap (PyStr ''a b'') None (Some 5) world0 =
     (Inr [], world0\<lparr>stdout := stdout world0 @ [MsgTextWrapNone (PyStr ''a b'') (Some 5)]\<rparr>)"
  using text_wrap_none_returns_empty [of "PyStr ''a b''" None "Some 5" world0]
  by simp

text \<open>
  C1, as stated: every line returned for a string, a font and a width is at most
  \<open>max_width\<close> wide. It fails for a word that is wider than \<open>max_width\<close> by itself: words
  are never broken. With the one-unit font and width 3, the text \<open>abcd\<close> comes back as
  an empty line and the line \<open>abcd\<close>, which is 4 wide.
\<close>

theorem text_wrap_long_word_counterexample:
  "text_wrap (PyStr ''abcd'') (Some unit_font) (Some 3) world0 = (Inr ['''', ''abcd''], world0) \<and>
   \<not> bbox_width (unit_font ''abcd'') \<le> 3"
  by (simp add: text_wrap_str unit_font_def bbox_width_def split_space_def strip_def
      is_space_def)

text \<open>
  C1, amended: when the empty string and every word of the text (the pieces between
  single spaces, stripped) fit in \<open>max_width\<close> by themselves, and stripping the text does
  not make it wider, then \<open>text_wrap\<close> returns and every line it returns is at most
  \<open>max_width\<close> wide.
\<close>

theorem text_wrap_lines_fit:
  assumes "bbox_width (f []) \<le> mw"
    and "\<forall>w \<in> set (split_space s). bbox_width (f (strip w)) \<le> mw"
    and "bbox_width (f (strip s)) \<le> bbox_width (f s)"
  shows "\<exists>ls. text_wrap (PyStr s) (Some f) (Some mw) w = (Inr ls, w) \<and>
              (\<forall>l \<in> set ls. bbox_width (f l) \<le> mw)"
  using assms by (auto simp: text_wrap_str)

theorem text_wrap_lines_fit_witness:
  "bbox_width (unit_font []) \<le> 3 \<and>
   split_space ''ab cd'' = [''ab'', ''cd''] \<and>
   bbox_width (unit_font (strip ''ab'')) \<le> 3 \<and>
   bbox_width (unit_font (strip ''cd'')) \<le> 3 \<and>
   bbox_width (unit_font (strip ''ab cd'')) \<le> bbox_width (unit_font ''ab cd'') \<and>
   (\<exists>ls. text_wrap (PyStr ''ab cd'') (Some unit_font) (Some 3) world0 = (Inr ls, world0) \<and>
         (\<forall>l \<in> set ls. bbox_width (unit_font l) \<le> 3))"
proof -
  have h1: "bbox_width (unit_font []) \<le> 3"
    by (simp add: unit_font_def bbox_width_def)
  have sp: "split_space ''ab cd'' = [''ab'', ''cd'']"
    by (simp add: split_space_def)
  have ab: "bbox_width (unit_font (strip ''ab'')) \<le> 3"
    and cd: "bbox_width (unit_font (strip ''cd'')) \<le> 3"
    by (simp_all add: strip_def is_space_def unit_font_def bbox_width_def)
  from sp ab cd
  have h2: "\<forall>w \<in> set (split_space ''ab cd''). bbox_width (unit_font (strip w)) \<le> 3"
    by simp
  have h3: "bbox_width (unit_font (strip ''ab cd'')) \<le> bbox_width (unit_font ''ab cd'')"
    by (simp add: strip_def is_space_def unit_font_def bbox_width_def)
  from text_wrap_lines_fit [OF h1 h2 h3, of world0] h1 sp ab cd h3 show ?thesis
    by blast
qed

subsection \<open>The words of a string\<close>

lemma py_words_eq: "py_words = (\<lambda>u. filter (\<lambda>x. x \<noteq> []) (split_on is_space u))"
  by (rule ext) (simp add: py_words_def)

lemma py_words_dropWhile: "py_words (dropWhile is_space s) = py_words s"
  by (induction s) (simp_all add: py_words_def)

lemma split_on_snoc: "P c \<Longrightarrow> split_on P (s @ [c]) = split_on P s @ [[]]"
  by (induction s) (auto split: list.splits)

lemma py_words_snoc_space: "is_space c \<Longrightarrow> py_words (s @ [c]) = py_words s"
  by (simp add: py_words_def split_on_snoc)

lemma py_words_rev_dropWhile: "py_words (rev (dropWhile is_space xs)) = py_words (rev xs)"
  by (induction xs) (simp_all add: py_words_snoc_space)

lemma py_words_strip: "py_words (strip s) = py_words s"
  using py_words_rev_dropWhile [of "rev s"]
  by (simp add: strip_def py_words_dropWhile)

text \<open>Cutting at fewer characters first and at all of them afterwards gives the same
  first piece and the same non-empty later pieces as cutting at all of them at once.\<close>

lemma split_on_refine:
  assumes "\<And>c. P c \<Longrightarrow> Q c"
  shows "split_on P s = w # ws \<Longrightarrow>
         hd (split_on Q s) = hd (split_on Q w) \<and>
         filter (\<lambda>x. x \<noteq> []) (tl (split_on Q s)) =
           filter (\<lambda>x. x \<noteq> []) (tl (split_on Q w)) @
           concat (map (\<lambda>u. filter (\<lambda>x. x \<noteq> []) (split_on Q u)) ws)"
proof (induction s arbitrary: w ws)
  case Nil
  then show ?case by auto
next
  case (Cons c cs)
  obtain w' ws' where sp: "split_on P cs = w' # ws'"
    by (cases "split_on P cs") auto
  obtain v vs where spq: "split_on Q cs = v # vs"
    by (cases "split_on Q cs") auto
  obtain v' vs' where spq': "split_on Q w' = v' # vs'"
    by (cases "split_on Q w'") auto
  from Cons.IH [OF sp] spq spq'
  have ih: "v = v'"
    "filter (\<lambda>x. x \<noteq> []) vs = filter (\<lambda>x. x \<noteq> []) vs' @
       concat (map (\<lambda>u. filter (\<lambda>x. x \<noteq> []) (split_on Q u)) ws')"
    by auto
  show ?case
  proof (cases "P c")
    case True
    with Cons.prems sp have "w = []" "ws = w' # ws'" by auto
    with True assms [of c] spq spq' ih show ?thesis by auto
  next
    case False
    with Cons.prems sp have "w = c # w'" "ws = ws'" by auto
    with False spq spq' ih show ?thesis by (cases "Q c") auto
  qed
qed

lemma py_words_split_space: "concat (map py_words (split_space s)) = py_words s"
proof -
  obtain w ws where sp: "split_on (\<lambda>c. c = CHR '' '') s = w # ws"
    by (cases "split_on (\<lambda>c. c = CHR '' '') s") auto
  obtain v vs where spq: "split_on is_space s = v # vs"
    by (cases "split_on is_space s") auto
  obtain v' vs' where spq': "split_on is_space w = v' # vs'"
    by (cases "split_on is_space w") auto
  have "\<And>c. c = CHR '' '' \<Longrightarrow> is_space c" by simp
  from split_on_refine [of "\<lambda>c. c = CHR '' ''" is_space, OF this sp] spq spq'
  have "filter (\<lambda>x. x \<noteq> []) (split_on is_space s) =
        filter (\<lambda>x. x \<noteq> []) (split_on is_space w) @
        concat (map (\<lambda>u. filter (\<lambda>x. x \<noteq> []) (split_on is_space u)) ws)"
    by auto
  then show ?thesis
    unfolding split_space_def sp py_words_eq by simp
qed

text \<open>
  C8. For a string, a font and a width, \<open>text_wrap\<close> returns, and the words of the lines
  it returns, taken line after line, are the words of the text, in the same order.
\<close>

theorem text_wrap_keeps_words:
  "\<exists>ls. text_wrap (PyStr s) (Some f) (Some mw) w = (Inr ls, w) \<and>
        concat (map py_words ls) = py_words s"
proof (cases "bbox_width (f s) > mw")
  case True
  have "concat (map py_words (map strip (split_space s))) =
        concat (map py_words (split_space s))"
    by (simp add: comp_def py_words_strip)
  with True show ?thesis
    by (simp add: text_wrap_str py_words_split_space py_words_def)
next
  case False
  then show ?thesis
    by (simp add: text_wrap_str py_words_strip)
qed

section \<open>Running a program step by step\<close>

lemmas prog_defs =
  and_then_def done_with_def throw_def attempt_def lift_result_def print_def when_do_def

lemma and_then_Inr: "m w = (Inr x, w') \<Longrightarrow> and_then m f w = f x w'"
  by (simp add: and_then_def)


lemma when_do_print:
  "when_do b (print m) w = (Inr (), w\<lparr>stdout := stdout w @ (if b then [m] else [])\<rparr>)"
  by (simp add: when_do_def print_def done_with_def)

section \<open>Properties of get_image_description\<close>

text \<open>Subscripting the reply step by step, as the source does, finds a value exactly
  when the JSON structure has the field.\<close>

lemma response_content_fails:
  "json_content reply = None \<Longrightarrow> \<exists>e. response_content reply = Inl e"
  by (auto simp: response_content_def json_content_def bind_result_def
      split: pyval.splits option.splits list.splits if_splits)


lemma get_image_description_fails:
  assumes "fs w p = Some bytes"
    and "request_fails nt (description_request nt prompt model key mt bytes)"
  shows "fst (get_image_description nt p prompt model key mt v w) = Inr (PyStr '''')"
proof (cases "http_post nt (description_request nt prompt model key mt bytes)")
  case (Inl e)
  with assms(1) show ?thesis
    by (simp add: get_image_description_def path_exists_def attempt_def
        request_description_def and_then_def read_file_def post_def print_def done_with_def)
next
  case (Inr r)
  show ?thesis
  proof (cases "json_result r")
    case None
    with Inr assms(1) show ?thesis
      by (simp add: get_image_description_def path_exists_def attempt_def
          request_description_def and_then_def read_file_def post_def lift_result_def
          response_json_def print_def done_with_def)
  next
    case (Some reply)
    with Inr assms(2) have "json_content reply = None"
      by (simp add: request_fails_def)
    from response_content_fails [OF this] obtain e where "response_content reply = Inl e"
      by blast
    with Inr Some assms(1) show ?thesis
      by (simp add: get_image_description_def path_exists_def attempt_def
          request_description_def and_then_def read_file_def post_def lift_result_def
          response_json_def print_def done_with_def when_do_def)
  qed
qed


text \<open>
  C5, as stated: a reply that is not 2xx, or is not JSON, or lacks
  \<open>choices[0].message.content\<close> makes \<open>get_image_description\<close> return the empty string.
  The status code is never read: a reply with status 500 whose body does carry the field
  gives that content back.
\<close>

theorem status_not_checked_counterexample:
  "http_post net_500 (description_request net_500 ''p'' ''m'' ''k'' 300 ''JPEG'') =
     Inr \<lparr>status_code = 500, json_result = Some reply_cat\<rparr> \<and>
   fst (get_image_description net_500 ''o_tmp.jpg'' ''p'' ''m'' ''k'' 300 False world_snapshot) =
     Inr (PyStr ''a cat'')"
  by (simp add: get_image_description_def path_exists_def world_snapshot_def world0_def
      attempt_def request_description_def and_then_def read_file_def post_def net_500_def
      lift_result_def response_json_def when_do_def done_with_def response_content_def
      bind_result_def reply_cat_def)

text \<open>
  C5, amended: when the image file is there and the reply to the request, whatever its
  status code, is not JSON or lacks \<open>choices[0].message.content\<close>, then
  \<open>get_image_description\<close> returns the empty string and raises nothing.
\<close>

theorem bad_reply_gives_empty_string:
  assumes "fs w image_path = Some bytes"
    and "http_post nt (description_request nt prompt model key max_tokens bytes) = Inr r"
    and "json_result r = None \<or>
         (\<exists>reply. json_result r = Some reply \<and> json_content reply = None)"
  shows "fst (get_image_description nt image_path prompt model key max_tokens is_verbose w) =
           Inr (PyStr '''')"
proof -
  from assms(2,3)
  have "request_fails nt (description_request nt prompt model key max_tokens bytes)"
    by (auto simp: request_fails_def)
  with assms(1) show ?thesis
    by (rule get_image_description_fails)
qed

theorem bad_reply_gives_empty_string_witness:
  "fs world_snapshot ''o_tmp.jpg'' = Some ''JPEG'' \<and>
   http_post net_401 (description_request net_401 ''p'' ''m'' ''k'' 300 ''JPEG'') =
     Inr \<lparr>status_code = 401, json_result = Some reply_error\<rparr> \<and>
   json_content reply_error = None \<and>
   fst (get_image_description net_401 ''o_tmp.jpg'' ''p'' ''m'' ''k'' 300 False world_snapshot) =
     Inr (PyStr '''')"
proof -
  have h1: "fs world_snapshot ''o_tmp.jpg'' = Some ''JPEG''"
    by (simp add: world_snapshot_def world0_def)
  have h2: "http_post net_401 (description_request net_401 ''p'' ''m'' ''k'' 300 ''JPEG'') =
              Inr \<lparr>status_code = 401, json_result = Some reply_error\<rparr>"
    by (simp add: net_401_def)
  have h3: "json_content reply_error = None"
    by (simp add: json_content_def reply_error_def)
  then have h4: "json_result \<lparr>status_code = 401, json_result = Some reply_error\<rparr> = None \<or>
      (\<exists>reply. json_result \<lparr>status_code = 401, json_result = Some reply_error\<rparr> = Some reply \<and>
               json_content reply = None)"
    by simp
  from bad_reply_gives_empty_string [OF h1 h2 h4, of False] h1 h2 h3 show ?thesis
    by simp
qed

text \<open>
  C10. When nothing is at the image path, \<open>get_image_description\<close> prints that the path
  does not exist and returns \<open>None\<close>, not the empty string of its other failures; no
  request goes out.
\<close>

theorem missing_path_returns_None:
  assumes "fs w image_path = None"
  shows "get_image_description nt image_path prompt model key max_tokens is_verbose w =
           (Inr PyNone, w\<lparr>stdout := stdout w @ [MsgPathNotExist image_path]\<rparr>)"
  using assms
  by (simp add: get_image_description_def path_exists_def and_then_def print_def done_with_def)

theorem missing_path_returns_None_witness:
  "fs world0 ''o_tmp.jpg'' = None \<and>
   get_image_description net_ok ''o_tmp.jpg'' ''p'' ''m'' ''k'' 300 False world0 =
     (Inr PyNone, world0\<lparr>stdout := stdout world0 @ [MsgPathNotExist ''o_tmp.jpg'']\<rparr>)"
proof -
  have h: "fs world0 ''o_tmp.jpg'' = None"
    by (simp add: world0_def)
  from missing_path_returns_None [OF h] h show ?thesis
    by simp
qed

section \<open>Properties of extract_pdf\<close>

text \<open>
  C4. With \<^verbatim>\<open>--describe\<close> and no key, \<open>extract_pdf\<close> prints its request for a key and
  returns: no document has been opened, no file has been written, and nothing has been
  sent.
\<close>

theorem no_key_aborts:
  assumes "describe a" and "openai_key a = []"
  shows "extract_pdf pl nt fz a w = (Inr (), w\<lparr>stdout := stdout w @ [MsgProvideKey]\<rparr>)"
  using assms by (simp add: extract_pdf_def print_def)

theorem no_key_aborts_witness:
  "describe args_no_key \<and> openai_key args_no_key = [] \<and>
   extract_pdf pil_test net_ok fitz_test args_no_key world0 =
     (Inr (), world0\<lparr>stdout := stdout world0 @ [MsgProvideKey]\<rparr>)"
proof -
  have h1: "describe args_no_key" and h2: "openai_key args_no_key = []"
    by (simp_all add: args_no_key_def args_test_def)
  from no_key_aborts [OF h1 h2] h1 h2 show ?thesis
    by simp
qed

text \<open>
  C6. With blur radius 0 the blur stage hands the image on as it got it, and prints
  nothing.
\<close>

theorem blur_zero_is_identity:
  assumes "blur a = 0"
  shows "blur_stage pl a page_number img_index im w = (Inr im, w)"
  using assms by (simp add: blur_stage_def done_with_def)

theorem blur_zero_is_identity_witness:
  "blur args_test = 0 \<and> blur_stage pil_test args_test 0 0 ''photo'' world0 = (Inr ''photo'', world0)"
proof -
  have h: "blur args_test = 0"
    by (simp add: args_test_def)
  from blur_zero_is_identity [OF h] h show ?thesis
    by simp
qed



section \<open>What the captioning stage sends\<close>

lemma keeps_sent_done [simp]: "keeps_sent (done_with x)"
  by (simp add: keeps_sent_def done_with_def)

lemma keeps_sent_throw [simp]: "keeps_sent (throw e)"
  by (simp add: keeps_sent_def throw_def)

lemma keeps_sent_lift [simp]: "keeps_sent (lift_result r)"
  by (simp add: keeps_sent_def lift_result_def)

lemma keeps_sent_print [simp]: "keeps_sent (print m)"
  by (simp add: keeps_sent_def print_def)

lemma keeps_sent_when [simp]: "keeps_sent m \<Longrightarrow> keeps_sent (when_do b m)"
  by (simp add: when_do_def)

lemma keeps_sent_and_then:
  "keeps_sent m \<Longrightarrow> (\<And>x. keeps_sent (f x)) \<Longrightarrow> keeps_sent (and_then m f)"
  by (auto simp: keeps_sent_def and_then_def split: prod.splits sum.splits)
     (metis snd_conv)+

lemma keeps_sent_attempt:
  "keeps_sent m \<Longrightarrow> (\<And>e. keeps_sent (h e)) \<Longrightarrow> keeps_sent (attempt m h)"
  by (auto simp: keeps_sent_def attempt_def split: prod.splits sum.splits)
     (metis snd_conv)+

lemma keeps_sent_read_file [simp]: "keeps_sent (read_file p)"
  by (simp add: keeps_sent_def read_file_def split: option.splits)

lemma keeps_sent_save_image [simp]: "keeps_sent (save_image pl im p)"
  by (simp add: keeps_sent_def save_image_def split: sum.splits)

lemma keeps_sent_remove [simp]: "keeps_sent (remove_if_exists p)"
  by (simp add: keeps_sent_def remove_if_exists_def)

lemma keeps_sent_text_wrap [simp]: "keeps_sent (text_wrap d f mw)"
  by (auto simp: text_wrap_def keeps_sent_and_then split: pyval.splits option.splits)

lemma keeps_sent_blur [simp]: "keeps_sent (blur_stage pl a pn i im)"
  by (simp add: blur_stage_def Let_def keeps_sent_and_then)

lemma keeps_sent_emboss [simp]: "keeps_sent (emboss_stage pl a pn i im)"
  by (simp add: emboss_stage_def Let_def keeps_sent_and_then)

lemma keeps_sent_gray [simp]: "keeps_sent (gray_stage pl a pn i im)"
  by (simp add: gray_stage_def Let_def keeps_sent_and_then)

lemma keeps_sent_black [simp]: "keeps_sent (black_stage pl a pn i im)"
  by (simp add: black_stage_def Let_def keeps_sent_and_then)

lemma keeps_sent_transform_chain [simp]: "keeps_sent (transform_chain pl a pn i im)"
  by (simp add: transform_chain_def keeps_sent_and_then)

lemma keeps_sent_overlay [simp]: "keeps_sent (overlay_stage pl a d im)"
  by (simp add: overlay_stage_def Let_def keeps_sent_and_then)

lemma keeps_sent_reinsert [simp]: "keeps_sent (reinsert pl pg i im)"
  by (simp add: reinsert_def insert_image_def Let_def keeps_sent_and_then keeps_sent_attempt)

lemma sent_and_then:
  "(\<And>x. keeps_sent (f x)) \<Longrightarrow> sent (snd (and_then m f w)) = sent (snd (m w))"
  by (auto simp: keeps_sent_def and_then_def split: prod.splits sum.splits)

lemma sent_attempt:
  "(\<And>e. keeps_sent (h e)) \<Longrightarrow> sent (snd (attempt m h w)) = sent (snd (m w))"
  by (auto simp: keeps_sent_def attempt_def split: prod.splits sum.splits)

lemma sent_request_description:
  assumes "fs w p = Some bytes"
  shows "sent (snd (request_description nt p prompt model key mt v w)) =
         sent w @ [description_request nt prompt model key mt bytes]"
proof -
  define req where "req = description_request nt prompt model key mt bytes"
  have rd: "read_file p w = (Inr bytes, w)"
    using assms by (simp add: read_file_def)
  have "request_description nt p prompt model key mt v w =
        and_then (post nt req)
          (\<lambda>response.
             and_then (lift_result (response_json response)) (\<lambda>response.
             and_then (when_do v (print (MsgResponse response))) (\<lambda>_.
             and_then (lift_result (response_content response)) (\<lambda>description.
             done_with description)))) w"
    unfolding request_description_def req_def
    by (simp add: and_then_Inr [of "read_file p" w bytes w, OF rd])
  moreover have "sent (snd (\<dots>)) = sent (snd (post nt req w))"
    by (rule sent_and_then) (simp add: keeps_sent_and_then)
  ultimately show ?thesis
    by (simp add: post_def req_def)
qed

lemma sent_get_image_description:
  assumes "fs w p = Some bytes"
  shows "sent (snd (get_image_description nt p prompt model key mt v w)) =
         sent w @ [description_request nt prompt model key mt bytes]"
  using assms
  by (simp add: get_image_description_def path_exists_def sent_attempt keeps_sent_and_then
      sent_request_description)

lemma sent_describe_stage:
  assumes "describe a" and "save_jpeg pl im = Inr bytes"
  shows "sent (snd (describe_stage pl nt a pn i im w)) = sent w @ [caption_request nt a bytes]"
proof -
  define w1 where
    "w1 = w\<lparr>stdout := stdout w @ (if verbose a then [MsgDescribing i pn] else [])\<rparr>"
  define w2 where "w2 = w1\<lparr>fs := (fs w1)(orig_tmp_path \<mapsto> bytes)\<rparr>"
  define gid where
    "gid = get_image_description nt orig_tmp_path (description_prompt a)
             ''gpt-4-vision-preview'' (openai_key a) (max_openai_tokens a) (verbose a)"
  have st1: "when_do (verbose a) (print (MsgDescribing i pn)) w = (Inr (), w1)"
    by (simp add: when_do_print w1_def)
  have st2: "attempt (save_image pl im orig_tmp_path)
               (\<lambda>e. print (MsgErrorSaving orig_tmp_path e)) w1 = (Inr (), w2)"
    using assms(2) by (simp add: attempt_def save_image_def w2_def)
  have "describe_stage pl nt a pn i im w =
        and_then gid
          (\<lambda>description. and_then (remove_if_exists orig_tmp_path)
             (\<lambda>_. done_with description)) w2"
    using assms(1)
    by (simp add: describe_stage_def gid_def
        and_then_Inr [of "when_do (verbose a) (print (MsgDescribing i pn))" w "()" w1, OF st1]
        and_then_Inr [of "attempt (save_image pl im orig_tmp_path)
               (\<lambda>e. print (MsgErrorSaving orig_tmp_path e))" w1 "()" w2, OF st2])
  moreover have "sent (snd (\<dots>)) = sent (snd (gid w2))"
    by (rule sent_and_then) (simp add: keeps_sent_and_then)
  moreover have "fs w2 orig_tmp_path = Some bytes" "sent w2 = sent w"
    by (simp_all add: w2_def w1_def)
  ultimately show ?thesis
    by (simp add: gid_def sent_get_image_description caption_request_def)
qed

lemma process_image_decoded:
  assumes "extract_image doc xref = Inr stored" and "image_open pl stored = Inr im"
  shows "process_image pl nt a doc pg img_index xref w =
     and_then (describe_stage pl nt a (number pg) img_index im) (\<lambda>description.
     and_then (transform_chain pl a (number pg) img_index im) (\<lambda>pil_img.
     and_then (overlay_stage pl a description pil_img) (\<lambda>pil_img.
     reinsert pl pg img_index pil_img))) w"
proof -
  have st1: "lift_result (extract_image doc xref) w = (Inr stored, w)"
    using assms(1) by (simp add: lift_result_def)
  have st2: "lift_result (image_open pl stored) w = (Inr im, w)"
    using assms(2) by (simp add: lift_result_def)
  show ?thesis
    unfolding process_image_def
    by (simp add: and_then_Inr [of "lift_result (extract_image doc xref)" w stored w, OF st1]
        and_then_Inr [of "lift_result (image_open pl stored)" w im w, OF st2])
qed

lemmas stage_defs =
  process_image_def describe_stage_def transform_chain_def blur_stage_def emboss_stage_def
  gray_stage_def black_stage_def overlay_stage_def reinsert_def insert_image_def
  get_image_info_def save_image_def remove_if_exists_def extract_image_def orig_tmp_path_def
  tmp_image_path_def get_image_description_def request_description_def read_file_def
  post_def path_exists_def response_json_def response_content_def bind_result_def

lemmas input_defs =
  pil_test_def args_test_def page_test_def doc_palette_def doc_photo_def world_stale_def
  world0_def net_ok_def net_down_def reply_cat_def unit_font_def

text \<open>
  C3, as stated: with captioning on, the bytes sent for an image come from the image as
  decoded. They do not when the snapshot cannot be saved while a file is at the snapshot
  path: the exception is caught, and \<open>get_image_description\<close> reads and sends the file
  that is there. Here the image \<open>palette\<close> cannot be saved, and the request carries the
  contents \<open>stale\<close> of the file found at \<^verbatim>\<open>o_tmp.jpg\<close>.
\<close>

theorem stale_snapshot_sent_counterexample:
  "extract_image doc_palette 7 = Inr ''palette'' \<and>
   image_open pil_test ''palette'' = Inr ''palette'' \<and>
   save_jpeg pil_test ''palette'' = Inl (LibError ''OSError'') \<and>
   sent (snd (process_image pil_test net_ok args_test doc_palette page_test 0 7 world_stale)) =
     [caption_request net_ok args_test ''stale'']"
  by (simp add: stage_defs prog_defs input_defs caption_request_def text_wrap_str)

text \<open>
  C3, amended: with captioning on, for every image whose snapshot is saved, exactly one
  request goes out while the image is processed, and it carries the JPEG encoding of the
  image as decoded from the document, whatever filters are enabled and whatever happens
  to the image afterwards.
\<close>

theorem caption_sends_decoded_image:
  assumes "describe a"
    and "extract_image doc xref = Inr stored"
    and "image_open pl stored = Inr im"
    and "save_jpeg pl im = Inr bytes"
  shows "sent (snd (process_image pl nt a doc pg img_index xref w)) =
           sent w @ [caption_request nt a bytes]"
proof -
  have "sent (snd (process_image pl nt a doc pg img_index xref w)) =
        sent (snd (describe_stage pl nt a (number pg) img_index im w))"
    unfolding process_image_decoded [OF assms(2,3)]
    by (rule sent_and_then) (simp add: keeps_sent_and_then)
  then show ?thesis
    by (simp add: sent_describe_stage [OF assms(1,4)])
qed

theorem caption_sends_decoded_image_witness:
  "describe args_test \<and>
   extract_image doc_photo 7 = Inr ''photo'' \<and>
   image_open pil_test ''photo'' = Inr ''photo'' \<and>
   save_jpeg pil_test ''photo'' = Inr ''jpeg:photo'' \<and>
   sent (snd (process_image pil_test net_ok args_test doc_photo page_test 0 7 world0)) =
     sent world0 @ [caption_request net_ok args_test ''jpeg:photo'']"
proof -
  have h1: "describe args_test"
    by (simp add: args_test_def)
  have h2: "extract_image doc_photo 7 = Inr ''photo''"
    by (simp add: extract_image_def doc_photo_def)
  have h3: "image_open pil_test ''photo'' = Inr ''photo''"
    by (simp add: pil_test_def)
  have h4: "save_jpeg pil_test ''photo'' = Inr ''jpeg:photo''"
    by (simp add: pil_test_def)
  from caption_sends_decoded_image [OF h1 h2 h3 h4] h1 h2 h3 h4 show ?thesis
    by simp
qed

section \<open>A failed caption and the rest of the pipeline\<close>








end
